theory Spec2Isabelle
  imports Complex_Main "HOL-Library.AList" "HOL-Library.Multiset"
begin

section \<open>The movie recommender of commend.py\<close>

text \<open>
  The module builds three frames once (\<^verbatim>\<open>df_ratings\<close>, \<^verbatim>\<open>df_movies\<close> and their inner
  join \<^verbatim>\<open>df_merged\<close>), pivots the join into a movie-by-user matrix \<^verbatim>\<open>df_piv\<close>, fits a
  nearest-neighbour model on it, and then serves two functions, \<^verbatim>\<open>get_recommendations\<close> and
  \<^verbatim>\<open>get_top_rated_movies\<close>.

  Modelling decisions:
  \<^item> a frame is the list of its rows, in row order; a movie id and a user id are Python
    integers (\<open>int\<close>);
  \<^item> a \<^verbatim>\<open>float64\<close> (a rating, a cosine distance, a score, a mean, the median) is a
    \<open>real\<close>: rounding is not modelled, and a missing rating (NaN) is not part of the model;
  \<^item> \<^verbatim>\<open>rec_model.kneighbors\<close> is scikit-learn's; its result for the row at a position
    of \<^verbatim>\<open>df_piv\<close> is a parameter of the engine, either an exception or the list of
    (distance, row position) pairs it returns, nearest first;
  \<^item> the dictionary \<^verbatim>\<open>recommendations\<close> is an association list in insertion order, the
    order in which Python iterates over it;
  \<^item> \<^verbatim>\<open>sort_values\<close> is pandas' with its default \<^verbatim>\<open>kind='quicksort'\<close>, which is not
    stable: the order in which it leaves rows of equal mean is a parameter of the engine
    too, a rank on the movie ids;
  \<^item> an exception is a value \<open>Inl e\<close> of the result type;
  \<^item> an \<open>engine\<close> stands for a module that has been loaded: the two frames read from
    the files and the fitted model. The pivot, the sparse matrix and \<^verbatim>\<open>rec.fit\<close>, which
    run once at load time inside pandas, SciPy and scikit-learn, are not modelled beyond
    the row labels of \<^verbatim>\<open>df_piv\<close>.
\<close>

subsection \<open>Frames\<close>

datatype py_error = KeyError | IndexError | ValueError

record engine =
  df_ratings :: "(int \<times> int \<times> real) list"
  df_movies :: "(int \<times> string) list"
  kneighbors :: "nat \<Rightarrow> py_error + (real \<times> nat) list"
  tie_rank :: "int \<Rightarrow> int"

text \<open>
  A row of \<^verbatim>\<open>df_ratings\<close> is (userId, movie_id, rating); a row of \<^verbatim>\<open>df_movies\<close> is
  (movie_id, movie_title). \<^verbatim>\<open>pd.merge(df_ratings, df_movies, on='movie_id')\<close> is the inner
  join: the rating rows in their order, each paired with every movie row of the same id.
\<close>

definition df_merged :: "engine \<Rightarrow> (int \<times> int \<times> real \<times> string) list" where
  "df_merged E =
     concat (map (\<lambda>(u, m, r).
                    map (\<lambda>(m', t). (u, m, r, t))
                        (filter (\<lambda>(m', t). m' = m) (df_movies E)))
                 (df_ratings E))"

definition merged_movie_id :: "int \<times> int \<times> real \<times> string \<Rightarrow> int" where
  "merged_movie_id row = fst (snd row)"

definition merged_rating :: "int \<times> int \<times> real \<times> string \<Rightarrow> real" where
  "merged_rating row = fst (snd (snd row))"

text \<open>
  The row labels of \<^verbatim>\<open>df_piv\<close>, and the group keys of
  \<^verbatim>\<open>df_merged.groupby('movie_id')\<close>: the distinct movie ids of the join, ascending.
\<close>

definition df_piv_index :: "engine \<Rightarrow> int list" where
  "df_piv_index E = sort (remdups (map merged_movie_id (df_merged E)))"

subsection \<open>get_recommendations\<close>

text \<open>\<^verbatim>\<open>df_piv.index.get_loc(movie_id)\<close>: the position of a label, or KeyError.\<close>

fun get_loc :: "int list \<Rightarrow> int \<Rightarrow> py_error + nat" where
  "get_loc [] movie_id = Inl KeyError"
| "get_loc (x # xs) movie_id =
     (if x = movie_id then Inr 0
      else case get_loc xs movie_id of Inl e \<Rightarrow> Inl e | Inr i \<Rightarrow> Inr (Suc i))"

text \<open>\<^verbatim>\<open>df_piv.index[i]\<close>: the label at a position, or IndexError.\<close>

definition index_at :: "int list \<Rightarrow> nat \<Rightarrow> py_error + int" where
  "index_at idx i = (if i < length idx then Inr (idx ! i) else Inl IndexError)"

text \<open>\<^verbatim>\<open>[df_piv.index[i] for i in similar_movie_indices]\<close>: the first failure ends it.\<close>

fun similar_ids :: "int list \<Rightarrow> nat list \<Rightarrow> py_error + int list" where
  "similar_ids idx [] = Inr []"
| "similar_ids idx (i # is) =
     (case index_at idx i of
        Inl e \<Rightarrow> Inl e
      | Inr m \<Rightarrow> (case similar_ids idx is of Inl e \<Rightarrow> Inl e | Inr ms \<Rightarrow> Inr (m # ms)))"

text \<open>
  The statements of the \<^verbatim>\<open>try\<close> block up to the inner loop: the neighbours of a seed as
  (movie id, score) pairs, the score being \<^verbatim>\<open>1 - distance\<close>.
\<close>

definition neighbours :: "engine \<Rightarrow> int \<Rightarrow> py_error + (int \<times> real) list" where
  "neighbours E movie_id =
     (case get_loc (df_piv_index E) movie_id of
        Inl e \<Rightarrow> Inl e
      | Inr movie_idx \<Rightarrow>
          (case kneighbors E movie_idx of
             Inl e \<Rightarrow> Inl e
           | Inr res \<Rightarrow>
               (case similar_ids (df_piv_index E) (map snd res) of
                  Inl e \<Rightarrow> Inl e
                | Inr similar_movie_ids \<Rightarrow>
                    Inr (zip similar_movie_ids (map (\<lambda>d. 1 - d) (map fst res))))))"

text \<open>\<^verbatim>\<open>recommendations.get(rec_id, 0)\<close>\<close>

definition dict_get :: "(int \<times> real) list \<Rightarrow> int \<Rightarrow> real \<Rightarrow> real" where
  "dict_get d k dflt = (case map_of d k of None \<Rightarrow> dflt | Some v \<Rightarrow> v)"

text \<open>
  \<^verbatim>\<open>recommendations[rec_id] = recommendations.get(rec_id, 0) + rec_score\<close>: a key already
  present keeps its place, a new key goes to the end.
\<close>

definition add_score :: "(int \<times> real) list \<Rightarrow> int \<times> real \<Rightarrow> (int \<times> real) list" where
  "add_score recommendations p =
     AList.update (fst p) (dict_get recommendations (fst p) 0 + snd p) recommendations"

text \<open>
  The outer loop. The inner loop runs over positions \<^verbatim>\<open>1 .. len - 1\<close>, so it leaves the
  first neighbour out. Only KeyError is caught; any other exception ends the call.
\<close>

fun accumulate :: "engine \<Rightarrow> (int \<times> real) list \<Rightarrow> int list \<Rightarrow> py_error + (int \<times> real) list" where
  "accumulate E recommendations [] = Inr recommendations"
| "accumulate E recommendations (movie_id # rest) =
     (case neighbours E movie_id of
        Inl KeyError \<Rightarrow> accumulate E recommendations rest
      | Inl e \<Rightarrow> Inl e
      | Inr nb \<Rightarrow> accumulate E (foldl add_score recommendations (drop 1 nb)) rest)"

text \<open>
  \<^verbatim>\<open>sorted(recommendations.items(), key=lambda item: item[1], reverse=True)\<close>: Python's sort
  is stable, also with \<^verbatim>\<open>reverse=True\<close>, so items of equal score keep their order.
\<close>

definition sorted_recs :: "(int \<times> real) list \<Rightarrow> (int \<times> real) list" where
  "sorted_recs recommendations = sort_key (\<lambda>item. - snd item) recommendations"

text \<open>The selection loop, with its \<^verbatim>\<open>break\<close> after the append.\<close>

fun select_recs :: "int list \<Rightarrow> (int \<times> real) list \<Rightarrow> int list \<Rightarrow> int list" where
  "select_recs movie_ids [] final_recs = final_recs"
| "select_recs movie_ids (item # rest) final_recs =
     (let final_recs' = (if fst item \<notin> set movie_ids then final_recs @ [fst item] else final_recs)
      in if length final_recs' \<ge> 5 then final_recs' else select_recs movie_ids rest final_recs')"

text \<open>
  \<^verbatim>\<open>df_movies[df_movies['movie_id'] == movie_id]['movie_title']\<close> and its \<^verbatim>\<open>iloc[0]\<close>: the
  title of the first row with that id, if there is one.
\<close>

definition title_series :: "(int \<times> string) list \<Rightarrow> int \<Rightarrow> string list" where
  "title_series movies movie_id = map snd (filter (\<lambda>row. fst row = movie_id) movies)"

fun titles_of :: "(int \<times> string) list \<Rightarrow> int list \<Rightarrow> string list" where
  "titles_of movies [] = []"
| "titles_of movies (movie_id # rest) =
     (case title_series movies movie_id of
        [] \<Rightarrow> titles_of movies rest
      | t # _ \<Rightarrow> t # titles_of movies rest)"

definition final_recs :: "engine \<Rightarrow> int list \<Rightarrow> py_error + int list" where
  "final_recs E movie_ids =
     (case accumulate E [] movie_ids of
        Inl e \<Rightarrow> Inl e
      | Inr recommendations \<Rightarrow> Inr (select_recs movie_ids (sorted_recs recommendations) []))"

definition get_recommendations :: "engine \<Rightarrow> int list \<Rightarrow> py_error + string list" where
  "get_recommendations E movie_ids =
     (case final_recs E movie_ids of
        Inl e \<Rightarrow> Inl e
      | Inr ids \<Rightarrow> Inr (titles_of (df_movies E) ids))"

subsection \<open>get_top_rated_movies\<close>

text \<open>The ratings of one group of \<^verbatim>\<open>df_merged.groupby('movie_id')['rating']\<close>.\<close>

definition group_ratings :: "engine \<Rightarrow> int \<Rightarrow> real list" where
  "group_ratings E m = map merged_rating (filter (\<lambda>row. merged_movie_id row = m) (df_merged E))"

definition df_mean_rating :: "engine \<Rightarrow> (int \<times> real) list" where
  "df_mean_rating E =
     map (\<lambda>m. (m, sum_list (group_ratings E m) / real (length (group_ratings E m))))
         (df_piv_index E)"

definition df_count_rating :: "engine \<Rightarrow> (int \<times> nat) list" where
  "df_count_rating E = map (\<lambda>m. (m, length (group_ratings E m))) (df_piv_index E)"

text \<open>
  \<^verbatim>\<open>Series.median()\<close>: the middle value of the sorted values, the mean of the two middle
  ones when their number is even, NaN (here \<open>None\<close>) when there is none.
\<close>

definition median :: "nat list \<Rightarrow> real option" where
  "median cs =
     (let s = sort cs; n = length s
      in if n = 0 then None
         else if odd n then Some (real (s ! (n div 2)))
         else Some ((real (s ! (n div 2 - 1)) + real (s ! (n div 2))) / 2))"

text \<open>\<^verbatim>\<open>df_count_rating['rating'] >= min_ratings_threshold\<close>: False against NaN.\<close>

definition popular_movies :: "engine \<Rightarrow> int list" where
  "popular_movies E =
     (case median (map snd (df_count_rating E)) of
        None \<Rightarrow> []
      | Some min_ratings_threshold \<Rightarrow>
          map fst (filter (\<lambda>row. real (snd row) \<ge> min_ratings_threshold) (df_count_rating E)))"

definition retained_mean_rating :: "engine \<Rightarrow> (int \<times> real) list" where
  "retained_mean_rating E =
     filter (\<lambda>row. fst row \<in> set (popular_movies E)) (df_mean_rating E)"

text \<open>
  \<^verbatim>\<open>sort_values(by='rating', ascending=False)\<close>: the rows by mean descending. The call
  names no second key and the default \<^verbatim>\<open>kind='quicksort'\<close> is not stable, so the order of
  rows of equal mean is the library's choice. The model takes that choice from the rank
  \<open>tie\<close>: rows of equal mean come out by ascending rank (and rows of equal mean and rank
  in the order of the frame). Every frame that a descending sort can return is obtained
  from some rank, see \<open>sort_values_desc_any_order\<close>.
\<close>

definition sort_values_desc :: "(int \<Rightarrow> int) \<Rightarrow> (int \<times> real) list \<Rightarrow> (int \<times> real) list" where
  "sort_values_desc tie df =
     sort_key (\<lambda>row. - snd row) (sort_key (\<lambda>row. tie (fst row)) df)"

definition top_5_ids :: "engine \<Rightarrow> int list" where
  "top_5_ids E = map fst (take 5 (sort_values_desc (tie_rank E) (retained_mean_rating E)))"

definition get_top_rated_movies :: "engine \<Rightarrow> string list" where
  "get_top_rated_movies E = titles_of (df_movies E) (top_5_ids E)"

subsection \<open>Notions used to state the properties\<close>

text \<open>
  The order the specification describes for a ranking: higher score (or mean) first, and
  among equal scores the smaller movie id first.
\<close>

definition by_score_then_id :: "int \<times> real \<Rightarrow> int \<times> real \<Rightarrow> bool" where
  "by_score_then_id a b \<longleftrightarrow> snd b < snd a \<or> (snd a = snd b \<and> fst a < fst b)"

text \<open>
  What one seed adds to the score of a movie \<open>x\<close>: the scores of the entries for \<open>x\<close> in
  the seed's neighbour list, the first entry left out; nothing when the seed is skipped.
\<close>

definition contribution :: "engine \<Rightarrow> int \<Rightarrow> int \<Rightarrow> real" where
  "contribution E seed x =
     (case neighbours E seed of
        Inl e \<Rightarrow> 0
      | Inr nb \<Rightarrow> sum_list (map snd (filter (\<lambda>p. fst p = x) (drop 1 nb))))"

subsection \<open>Two concrete engines\<close>

text \<open>
  Twelve movies and seven users. Movies 1 and 9 share user 1, movies 2 and 3 share user 3,
  movies 4 and 5 share user 5, and movies 6, 7, 8, 10, 11, 12 are rated by user 7 alone.
  The cosine distances are those of the rating vectors: for instance movie 1 is \<open>(5, 0)\<close>
  and movie 9 is \<open>(3, 4)\<close> over users 1 and 2, at distance \<open>1 - 15/25 = 2/5\<close>; movies
  without a common user are at distance 1. Each neighbour list has the eleven entries that
  \<^verbatim>\<open>n_neighbors=11\<close> asks for; rows at equal distance are listed in ascending position,
  one of the orders the library can return them in. The rank
  \<open>descending_ids\<close> stands for a sort that leaves rows of equal mean in descending id order,
  one of the orders an unstable sort can leave.
\<close>

definition descending_ids :: "int \<Rightarrow> int" where
  "descending_ids m = - m"

definition example_movies :: "(int \<times> string) list" where
  "example_movies =
     [(1, ''M1''), (2, ''M2''), (3, ''M3''), (4, ''M4''), (5, ''M5''), (6, ''M6''),
      (7, ''M7''), (8, ''M8''), (9, ''M9''), (10, ''M10''), (11, ''M11''), (12, ''M12'')]"

definition example_ratings :: "(int \<times> int \<times> real) list" where
  "example_ratings =
     [(1, 1, 5), (1, 9, 3), (2, 9, 4),
      (3, 2, 5), (3, 3, 3), (4, 3, 4),
      (5, 4, 5), (5, 5, 4), (6, 5, 3),
      (7, 6, 4), (7, 7, 3), (7, 8, 2), (7, 10, 1), (7, 11, 5), (7, 12, 3)]"

definition far :: "nat list \<Rightarrow> (real \<times> nat) list" where
  "far rows = map (\<lambda>i. (1, i)) rows"

definition example_kneighbors :: "nat \<Rightarrow> py_error + (real \<times> nat) list" where
  "example_kneighbors i =
     (if i = 0 then Inr ([(0, 0), (2/5, 8)] @ far [1, 2, 3, 4, 5, 6, 7, 9, 10])
      else if i = 1 then Inr ([(0, 1), (2/5, 2)] @ far [0, 3, 4, 5, 6, 7, 8, 9, 10])
      else if i = 2 then Inr ([(0, 2), (2/5, 1)] @ far [0, 3, 4, 5, 6, 7, 8, 9, 10])
      else if i = 3 then Inr ([(0, 3), (1/5, 4)] @ far [0, 1, 2, 5, 6, 7, 8, 9, 10])
      else if i = 4 then Inr ([(0, 4), (1/5, 3)] @ far [0, 1, 2, 5, 6, 7, 8, 9, 10])
      else if i = 8 then Inr ([(0, 8), (2/5, 0)] @ far [1, 2, 3, 4, 5, 6, 7, 9, 10])
      else if i \<in> {5, 6, 7, 9, 10, 11}
        then Inr (map (\<lambda>j. (0, j)) [5, 6, 7, 9, 10, 11] @ far [0, 1, 2, 3, 4])
      else Inl ValueError)"

definition example_engine :: engine where
  "example_engine =
     \<lparr> df_ratings = example_ratings, df_movies = example_movies,
       kneighbors = example_kneighbors, tie_rank = descending_ids \<rparr>"

text \<open>
  Three movies and two users; movie 1 has one rating, movies 2 and 3 have two. With three
  rows a query for eleven neighbours is refused by scikit-learn, which
  \<^verbatim>\<open>get_top_rated_movies\<close> never makes.
\<close>

definition small_engine :: engine where
  "small_engine =
     \<lparr> df_ratings = [(1, 1, 5), (1, 2, 4), (2, 2, 3), (1, 3, 2), (2, 3, 1)],
       df_movies = [(1, ''M1''), (2, ''M2''), (3, ''M3'')],
       kneighbors = (\<lambda>i. Inl ValueError), tie_rank = descending_ids \<rparr>"

text \<open>
  Four movies and one user: movies 1 and 2 are rated 3, movies 3 and 4 are rated 5, so the
  means are tied in pairs and every count is 1.
\<close>

definition tied_engine :: engine where
  "tied_engine =
     \<lparr> df_ratings = [(1, 1, 3), (1, 2, 3), (1, 3, 5), (1, 4, 5)],
       df_movies = [(1, ''M1''), (2, ''M2''), (3, ''M3''), (4, ''M4'')],
       kneighbors = (\<lambda>i. Inl ValueError), tie_rank = descending_ids \<rparr>"

section \<open>Properties\<close>

subsection \<open>Selection and title lookup\<close>


lemma select_recs_disjoint:
  "set final \<inter> set movie_ids = {} \<Longrightarrow> set (select_recs movie_ids items final) \<inter> set movie_ids = {}"
  by (induction items arbitrary: final) (auto simp: Let_def)

lemma select_recs_length:
  "length final < 5 \<Longrightarrow> length (select_recs movie_ids items final) \<le> 5"
  by (induction items arbitrary: final) (auto simp: Let_def)

lemma select_recs_subset:
  "set (select_recs movie_ids items final) \<subseteq> set final \<union> fst ` set items"
proof (induction items arbitrary: final)
  case Nil
  show ?case by simp
next
  case (Cons item items)
  have "set (select_recs movie_ids items (final @ [fst item]))
          \<subseteq> set (final @ [fst item]) \<union> fst ` set items"
    by (rule Cons.IH)
  moreover have "set (select_recs movie_ids items final) \<subseteq> set final \<union> fst ` set items"
    by (rule Cons.IH)
  ultimately show ?case by (auto simp: Let_def)
qed

lemma titles_of_length: "length (titles_of movies ids) \<le> length ids"
  by (induction ids) (auto split: list.splits)

lemma title_series_member:
  "title_series movies m = t # ts \<Longrightarrow> (m, t) \<in> set movies"
proof -
  assume "title_series movies m = t # ts"
  then have "t \<in> set (title_series movies m)" by simp
  then show ?thesis by (auto simp: title_series_def)
qed

lemma title_series_empty:
  "title_series movies m = [] \<longleftrightarrow> m \<notin> fst ` set movies"
  by (auto simp: title_series_def filter_empty_conv image_iff)

lemma titles_of_catalog:
  "list_all2 (\<lambda>m t. (m, t) \<in> set movies)
     (filter (\<lambda>m. m \<in> fst ` set movies) ids) (titles_of movies ids)"
proof (induction ids)
  case Nil
  show ?case by simp
next
  case (Cons m ids)
  show ?case
  proof (cases "title_series movies m")
    case Nil
    then have "m \<notin> fst ` set movies" by (simp add: title_series_empty)
    with Nil Cons show ?thesis by simp
  next
    case (Cons t ts)
    then have "(m, t) \<in> set movies" by (rule title_series_member)
    moreover from this have "m \<in> fst ` set movies" by force
    ultimately show ?thesis using Cons Cons.IH by simp
  qed
qed

lemma titles_of_drop:
  "title_series movies m = [] \<Longrightarrow> titles_of movies (xs @ m # ys) = titles_of movies (xs @ ys)"
  by (induction xs) (auto split: list.splits)

lemma get_loc_KeyError: "movie_id \<notin> set idx \<Longrightarrow> get_loc idx movie_id = Inl KeyError"
  by (induction idx) auto

lemma get_loc_Inr: "get_loc idx movie_id = Inr i \<Longrightarrow> i < length idx \<and> idx ! i = movie_id"
  by (induction idx arbitrary: i) (auto split: if_splits sum.splits)

lemma similar_ids_subset: "similar_ids idx is = Inr ms \<Longrightarrow> set ms \<subseteq> set idx"
  by (induction "is" arbitrary: ms) (auto simp: index_at_def split: if_splits sum.splits)

lemma neighbours_subset:
  assumes "neighbours E movie_id = Inr nb"
  shows "fst ` set nb \<subseteq> set (df_piv_index E)"
proof -
  from assms obtain ms ds where nb: "nb = zip ms ds" and ms: "set ms \<subseteq> set (df_piv_index E)"
    by (auto simp: neighbours_def split: sum.splits dest: similar_ids_subset)
  have "fst ` set (zip ms ds) \<subseteq> set ms"
    by (auto dest: set_zip_leftD)
  with nb ms show ?thesis by blast
qed

lemma neighbours_unknown:
  "movie_id \<notin> set (df_piv_index E) \<Longrightarrow> neighbours E movie_id = Inl KeyError"
  by (simp add: neighbours_def get_loc_KeyError)

lemma keys_add_score: "fst ` set (add_score r p) = insert (fst p) (fst ` set r)"
  by (auto simp: add_score_def AList.update_keys simp flip: set_map)

lemma keys_foldl_add_score: "fst ` set (foldl add_score r ps) = fst ` set r \<union> fst ` set ps"
  by (induction ps arbitrary: r) (auto simp: keys_add_score)

lemma accumulate_keys:
  "accumulate E r seeds = Inr r' \<Longrightarrow> fst ` set r' \<subseteq> fst ` set r \<union> set (df_piv_index E)"
proof (induction seeds arbitrary: r)
  case Nil
  then show ?case by auto
next
  case (Cons s seeds)
  show ?case
  proof (cases "neighbours E s")
    case (Inl e)
    with Cons.prems have "accumulate E r seeds = Inr r'"
      by (cases e) auto
    then show ?thesis by (rule Cons.IH)
  next
    case (Inr nb)
    with Cons.prems have "accumulate E (foldl add_score r (drop 1 nb)) seeds = Inr r'"
      by simp
    then have "fst ` set r' \<subseteq> fst ` set (foldl add_score r (drop 1 nb)) \<union> set (df_piv_index E)"
      by (rule Cons.IH)
    moreover have "fst ` set (drop 1 nb) \<subseteq> set (df_piv_index E)"
      using neighbours_subset [OF Inr] set_drop_subset [of 1 nb] by blast
    ultimately show ?thesis by (auto simp: keys_foldl_add_score)
  qed
qed

subsection \<open>Unknown seeds\<close>

lemma accumulate_skip_unknown:
  "u \<notin> set (df_piv_index E) \<Longrightarrow> accumulate E r (xs @ u # ys) = accumulate E r (xs @ ys)"
proof (induction xs arbitrary: r)
  case Nil
  then show ?case by (simp add: neighbours_unknown)
next
  case (Cons x xs)
  then show ?case by (simp split: sum.splits py_error.splits)
qed

lemma select_recs_skip_unknown:
  "u \<notin> fst ` set items \<Longrightarrow>
   select_recs (xs @ u # ys) items final = select_recs (xs @ ys) items final"
  by (induction items arbitrary: final) (auto simp: Let_def)

lemma accumulate_all_unknown:
  "set seeds \<inter> set (df_piv_index E) = {} \<Longrightarrow> accumulate E r seeds = Inr r"
  by (induction seeds) (auto simp: neighbours_unknown)

lemma final_recs_skip_unknown:
  assumes "u \<notin> set (df_piv_index E)"
  shows "final_recs E (xs @ u # ys) = final_recs E (xs @ ys)"
proof (cases "accumulate E [] (xs @ ys)")
  case (Inl e)
  then show ?thesis using assms by (simp add: final_recs_def accumulate_skip_unknown)
next
  case (Inr r)
  then have "fst ` set r \<subseteq> set (df_piv_index E)"
    using accumulate_keys [of E "[]" "xs @ ys" r] by simp
  with assms have "u \<notin> fst ` set (sorted_recs r)"
    by (auto simp: sorted_recs_def)
  then show ?thesis using assms Inr
    by (simp add: final_recs_def accumulate_skip_unknown select_recs_skip_unknown)
qed

subsection \<open>Accumulated scores\<close>

lemma dict_get_add_score:
  "dict_get (add_score r p) x 0 = dict_get r x 0 + (if fst p = x then snd p else 0)"
  by (simp add: dict_get_def add_score_def update_conv' split: option.splits)

lemma dict_get_foldl_add_score:
  "dict_get (foldl add_score r ps) x 0
     = dict_get r x 0 + sum_list (map snd (filter (\<lambda>p. fst p = x) ps))"
  by (induction ps arbitrary: r) (simp_all add: dict_get_add_score)

lemma accumulate_score:
  "accumulate E r seeds = Inr r' \<Longrightarrow>
   dict_get r' x 0 = dict_get r x 0 + sum_list (map (\<lambda>s. contribution E s x) seeds)"
proof (induction seeds arbitrary: r)
  case Nil
  then show ?case by simp
next
  case (Cons s seeds)
  show ?case
  proof (cases "neighbours E s")
    case (Inl e)
    with Cons.prems have "accumulate E r seeds = Inr r'"
      by (cases e) auto
    from Cons.IH [OF this] Inl show ?thesis by (simp add: contribution_def)
  next
    case (Inr nb)
    with Cons.prems have "accumulate E (foldl add_score r (drop 1 nb)) seeds = Inr r'"
      by simp
    from Cons.IH [OF this] Inr show ?thesis
      by (simp add: contribution_def dict_get_foldl_add_score)
  qed
qed

subsection \<open>The two rankings\<close>

lemma df_piv_index_strict: "sorted_wrt (<) (df_piv_index E)"
  by (simp add: df_piv_index_def strict_sorted_iff)

lemma map_fst_df_mean_rating: "map fst (df_mean_rating E) = df_piv_index E"
  by (simp add: df_mean_rating_def comp_def)

lemma map_fst_df_count_rating: "map fst (df_count_rating E) = df_piv_index E"
  by (simp add: df_count_rating_def comp_def)

lemma sort_values_desc_sorted:
  "sorted_wrt (\<lambda>a b. snd b \<le> snd a) (sort_values_desc tie df)"
proof -
  have "sorted (map (\<lambda>row. - snd row) (sort_values_desc tie df))"
    by (simp add: sort_values_desc_def)
  then show ?thesis by (simp add: sorted_map)
qed

lemma mset_sort_values_desc: "mset (sort_values_desc tie df) = mset df"
  by (simp add: sort_values_desc_def)

lemma set_sort_values_desc: "set (sort_values_desc tie df) = set df"
  by (simp add: sort_values_desc_def)

text \<open>
  The rank loses nothing: whatever frame a descending sort returns, some rank gives it.
\<close>

lemma strictly_increasing_rank:
  "distinct zs \<Longrightarrow> \<exists>g :: int \<Rightarrow> int. sorted_wrt (<) (map g zs)"
proof (induction zs)
  case Nil
  show ?case by simp
next
  case (Cons z zs)
  then obtain g :: "int \<Rightarrow> int" where g: "sorted_wrt (<) (map g zs)" by auto
  define g' where "g' = g(z := (if zs = [] then 0 else Min (g ` set zs) - 1))"
  from Cons.prems have "z \<notin> set zs" by simp
  then have same: "map g' zs = map g zs" by (auto simp: g'_def)
  have "g' z < g' y" if "y \<in> set zs" for y
  proof -
    from that have "Min (g ` set zs) \<le> g y" by simp
    moreover from that \<open>z \<notin> set zs\<close> have "g' y = g y" by (auto simp: g'_def)
    moreover from that have "g' z = Min (g ` set zs) - 1" by (auto simp: g'_def)
    ultimately show ?thesis by simp
  qed
  moreover from g have "sorted_wrt (<) (map g' zs)" unfolding same .
  ultimately have "sorted_wrt (<) (map g' (z # zs))" by simp
  then show ?case by blast
qed

lemma sort_values_desc_any_order:
  fixes df ys :: "(int \<times> real) list"
  assumes perm: "mset ys = mset df" and ids: "distinct (map fst df)"
    and desc: "sorted_wrt (\<lambda>a b. snd b \<le> snd a) ys"
  shows "\<exists>tie. sort_values_desc tie df = ys"
proof -
  have "mset (map fst ys) = mset (map fst df)" using perm by simp
  with ids have "distinct (map fst ys)" by (metis mset_eq_imp_distinct_iff)
  then obtain g :: "int \<Rightarrow> int" where g: "sorted_wrt (<) (map g (map fst ys))"
    using strictly_increasing_rank by blast
  let ?f = "\<lambda>row :: int \<times> real. g (fst row)"
  let ?zs = "sort_key ?f df"
  from g have strict: "sorted_wrt (<) (map ?f ys)" by (simp add: comp_def)
  then have s_ys: "sorted (map ?f ys)" and d_ys: "distinct (map ?f ys)"
    by (simp_all add: strict_sorted_iff)
  have "mset (map ?f ?zs) = mset (map ?f ys)" using perm by simp
  then have d_zs: "distinct (map ?f ?zs)" and set_eq: "set (map ?f ?zs) = set (map ?f ys)"
    using d_ys by (metis mset_eq_imp_distinct_iff, metis set_mset_mset)
  have "sorted (map ?f ?zs)" by simp
  then have "map ?f ?zs = map ?f ys"
    using d_zs s_ys d_ys set_eq by (rule sorted_distinct_set_unique)
  moreover have "inj_on ?f (set ?zs \<union> set ys)"
  proof -
    have "set ?zs = set ys" using perm by (metis set_sort set_mset_mset)
    moreover from d_ys have "inj_on ?f (set ys)" by (simp add: distinct_map)
    ultimately show ?thesis by simp
  qed
  ultimately have "?zs = ys" by (simp add: inj_on_map_eq_map)
  moreover have "sort_key (\<lambda>row. - snd row) ys = ys"
  proof (rule sort_key_id_if_sorted)
    from desc show "sorted (map (\<lambda>row. - snd row) ys)" by (simp add: sorted_map)
  qed
  ultimately have "sort_values_desc g df = ys" by (simp add: sort_values_desc_def)
  then show ?thesis by blast
qed

lemma df_piv_index_catalog: "m \<in> set (df_piv_index E) \<Longrightarrow> m \<in> fst ` set (df_movies E)"
  by (force simp: df_piv_index_def df_merged_def merged_movie_id_def)

lemma top_5_ids_subset: "set (top_5_ids E) \<subseteq> set (popular_movies E)"
proof -
  have "set (take 5 (sort_values_desc (tie_rank E) (retained_mean_rating E)))
          \<subseteq> set (retained_mean_rating E)"
    using set_take_subset [of 5 "sort_values_desc (tie_rank E) (retained_mean_rating E)"]
    by (simp add: set_sort_values_desc)
  then show ?thesis
    by (auto simp: top_5_ids_def retained_mean_rating_def)
qed

lemma popular_movies_subset: "set (popular_movies E) \<subseteq> set (df_piv_index E)"
  by (auto simp: popular_movies_def df_count_rating_def split: option.splits)

lemma head_is_max:
  fixes xs :: "(int \<times> real) list"
  assumes "sorted_wrt (\<lambda>a b. snd b \<le> snd a) xs" and "(m, r) \<in> set xs"
    and "\<forall>row\<in>set xs. row = (m, r) \<or> snd row < r"
  shows "\<exists>rest. xs = (m, r) # rest"
proof (cases xs)
  case Nil
  with assms(2) show ?thesis by simp
next
  case (Cons a as)
  have "a = (m, r)"
  proof (rule ccontr)
    assume ne: "a \<noteq> (m, r)"
    with assms(3) Cons have lt: "snd a < r" by auto
    from ne assms(2) Cons have "(m, r) \<in> set as" by auto
    with assms(1) Cons have "r \<le> snd a" by auto
    with lt show False by simp
  qed
  with Cons show ?thesis by simp
qed

lemma popular_movies_support:
  assumes "m \<in> set (popular_movies E)"
  shows "\<exists>c med. (m, c) \<in> set (df_count_rating E)
           \<and> median (map snd (df_count_rating E)) = Some med \<and> med \<le> real c"
proof (cases "median (map snd (df_count_rating E))")
  case None
  with assms show ?thesis by (simp add: popular_movies_def)
next
  case (Some med)
  with assms obtain c where "(m, c) \<in> set (df_count_rating E)" and "med \<le> real c"
    by (auto simp: popular_movies_def)
  with Some show ?thesis by blast
qed

lemma sum_list_contributions:
  assumes "mset S' = add_mset B (mset S)"
  shows "sum_list (map f S') = (f B :: real) + sum_list (map f S)"
proof -
  have "sum_list (map f S') = sum_mset (image_mset f (mset S'))"
    by (simp flip: sum_mset_sum_list)
  also have "\<dots> = f B + sum_mset (image_mset f (mset S))"
    by (simp add: assms)
  also have "sum_mset (image_mset f (mset S)) = sum_list (map f S)"
    by (simp flip: sum_mset_sum_list)
  finally show ?thesis .
qed

subsection \<open>The concrete engines, evaluated\<close>

lemma example_index: "df_piv_index example_engine = [1, 2, 3, 4, 5, 6, 7, 8, 9, 10, 11, 12]"
  by (simp add: df_piv_index_def df_merged_def example_engine_def example_ratings_def
      example_movies_def merged_movie_id_def)

lemma example_fields:
  "kneighbors example_engine = example_kneighbors" "df_movies example_engine = example_movies"
  by (simp_all add: example_engine_def)

lemma example_neighbours_1:
  "neighbours example_engine 1 =
     Inr [(1, 1), (9, 3/5), (2, 0), (3, 0), (4, 0), (5, 0), (6, 0), (7, 0), (8, 0), (10, 0), (11, 0)]"
  by (simp add: neighbours_def example_index example_fields example_kneighbors_def far_def
      index_at_def)

lemma example_neighbours_2:
  "neighbours example_engine 2 =
     Inr [(2, 1), (3, 3/5), (1, 0), (4, 0), (5, 0), (6, 0), (7, 0), (8, 0), (9, 0), (10, 0), (11, 0)]"
  by (simp add: neighbours_def example_index example_fields example_kneighbors_def far_def
      index_at_def)

lemma example_neighbours_4:
  "neighbours example_engine 4 =
     Inr [(4, 1), (5, 4/5), (1, 0), (2, 0), (3, 0), (6, 0), (7, 0), (8, 0), (9, 0), (10, 0), (11, 0)]"
  by (simp add: neighbours_def example_index example_fields example_kneighbors_def far_def
      index_at_def)

lemma example_accumulate:
  "accumulate example_engine [] [1, 2, 4] =
     Inr [(9, 3/5), (2, 0), (3, 3/5), (4, 0), (5, 4/5), (6, 0), (7, 0), (8, 0), (10, 0),
          (11, 0), (1, 0)]"
  by (simp add: example_neighbours_1 example_neighbours_2 example_neighbours_4
      add_score_def dict_get_def)

lemma example_sorted_recs:
  "sorted_recs [(9, 3/5), (2, 0), (3, 3/5), (4, 0), (5, 4/5), (6, 0), (7, 0), (8, 0), (10, 0),
          (11, 0), (1, 0)]
   = [(5, 4/5), (9, 3/5), (3, 3/5), (2, 0), (4, 0), (6, 0), (7, 0), (8, 0), (10, 0),
          (11, 0), (1, 0)]"
  by (simp add: sorted_recs_def)

lemma example_final_recs: "final_recs example_engine [1, 2, 4] = Inr [5, 9, 3, 6, 7]"
  unfolding final_recs_def example_accumulate by (simp add: example_sorted_recs)

lemma example_get_recommendations:
  "get_recommendations example_engine [1, 2, 4] = Inr [''M5'', ''M9'', ''M3'', ''M6'', ''M7'']"
  unfolding get_recommendations_def example_final_recs
  by (simp add: example_fields example_movies_def title_series_def)

lemma example_neighbours_6:
  "neighbours example_engine 6 =
     Inr [(6, 1), (7, 1), (8, 1), (10, 1), (11, 1), (12, 1), (1, 0), (2, 0), (3, 0), (4, 0), (5, 0)]"
  by (simp add: neighbours_def example_index example_fields example_kneighbors_def far_def
      index_at_def)

lemma example_neighbours_8:
  "neighbours example_engine 8 =
     Inr [(6, 1), (7, 1), (8, 1), (10, 1), (11, 1), (12, 1), (1, 0), (2, 0), (3, 0), (4, 0), (5, 0)]"
  by (simp add: neighbours_def example_index example_fields example_kneighbors_def far_def
      index_at_def)

lemma example_accumulate_6:
  "accumulate example_engine [] [6] =
     Inr [(7, 1), (8, 1), (10, 1), (11, 1), (12, 1), (1, 0), (2, 0), (3, 0), (4, 0), (5, 0)]"
  by (simp add: example_neighbours_6 add_score_def dict_get_def)

lemma example_accumulate_6_8:
  "accumulate example_engine [] [6, 8] =
     Inr [(7, 2), (8, 2), (10, 2), (11, 2), (12, 2), (1, 0), (2, 0), (3, 0), (4, 0), (5, 0)]"
  by (simp add: example_neighbours_6 example_neighbours_8 add_score_def dict_get_def)

lemma small_counts: "df_count_rating small_engine = [(1, 1), (2, 2), (3, 2)]"
  by (simp add: df_count_rating_def df_piv_index_def df_merged_def small_engine_def
      merged_movie_id_def group_ratings_def)

lemma small_means: "df_mean_rating small_engine = [(1, 5), (2, 7/2), (3, 3/2)]"
  by (simp add: df_mean_rating_def df_piv_index_def df_merged_def small_engine_def
      merged_movie_id_def merged_rating_def group_ratings_def)

lemma small_median: "median (map snd (df_count_rating small_engine)) = Some 2"
  by (simp add: small_counts median_def)

lemma small_popular: "popular_movies small_engine = [2, 3]"
  by (simp add: popular_movies_def small_median) (simp add: small_counts)

lemma small_retained: "retained_mean_rating small_engine = [(2, 7/2), (3, 3/2)]"
  by (simp add: retained_mean_rating_def small_popular small_means)

lemma small_tie: "tie_rank small_engine = descending_ids"
  by (simp add: small_engine_def)

lemma small_top_5_ids: "top_5_ids small_engine = [2, 3]"
  by (simp add: top_5_ids_def small_retained small_tie sort_values_desc_def descending_ids_def)

lemma small_top_rated: "get_top_rated_movies small_engine = [''M2'', ''M3'']"
  by (simp add: get_top_rated_movies_def small_top_5_ids)
     (simp add: small_engine_def title_series_def)

lemma tied_tie: "tie_rank tied_engine = descending_ids"
  by (simp add: tied_engine_def)

lemma tied_counts: "df_count_rating tied_engine = [(1, 1), (2, 1), (3, 1), (4, 1)]"
  by (simp add: df_count_rating_def df_piv_index_def df_merged_def tied_engine_def
      merged_movie_id_def group_ratings_def)

lemma tied_means: "df_mean_rating tied_engine = [(1, 3), (2, 3), (3, 5), (4, 5)]"
  by (simp add: df_mean_rating_def df_piv_index_def df_merged_def tied_engine_def
      merged_movie_id_def merged_rating_def group_ratings_def)

lemma tied_median: "median (map snd (df_count_rating tied_engine)) = Some 1"
  by (simp add: tied_counts median_def)

lemma tied_popular: "popular_movies tied_engine = [1, 2, 3, 4]"
  by (simp add: popular_movies_def tied_median) (simp add: tied_counts)

lemma tied_retained: "retained_mean_rating tied_engine = [(1, 3), (2, 3), (3, 5), (4, 5)]"
  by (simp add: retained_mean_rating_def tied_popular tied_means)

lemma tied_sorted:
  "sort_values_desc (tie_rank tied_engine) (retained_mean_rating tied_engine)
     = [(4, 5), (3, 5), (2, 3), (1, 3)]"
  by (simp add: tied_retained tied_tie sort_values_desc_def descending_ids_def)

lemma tied_top_5_ids: "top_5_ids tied_engine = [4, 3, 2, 1]"
  by (simp add: top_5_ids_def tied_sorted)

lemma tied_top_rated: "get_top_rated_movies tied_engine = [''M4'', ''M3'', ''M2'', ''M1'']"
  by (simp add: get_top_rated_movies_def tied_top_5_ids)
     (simp add: tied_engine_def title_series_def)

lemma example_titles_of_unknown:
  "titles_of example_movies [5, 99, 9] = [''M5'', ''M9'']"
  by (simp add: example_movies_def title_series_def)

section \<open>The claims\<close>


text \<open>
  C1. Whatever the seeds, none of them is among the recommendations: when
  \<^verbatim>\<open>get_recommendations\<close> returns, its titles are those of the selected ids
  (\<^verbatim>\<open>final_recs\<close>), and no selected id is a seed.
\<close>

theorem recommendations_exclude_seeds:
  assumes "get_recommendations E S = Inr ts"
  shows "\<exists>ids. final_recs E S = Inr ids \<and> set ids \<inter> set S = {}
           \<and> ts = titles_of (df_movies E) ids"
proof -
  from assms obtain ids where ids: "final_recs E S = Inr ids"
    and ts: "ts = titles_of (df_movies E) ids"
    by (auto simp: get_recommendations_def split: sum.splits)
  from ids obtain r where "ids = select_recs S (sorted_recs r) []"
    by (auto simp: final_recs_def split: sum.splits)
  then have "set ids \<inter> set S = {}"
    by (simp add: select_recs_disjoint)
  with ids ts show ?thesis by simp
qed

theorem recommendations_exclude_seeds_witness:
  "get_recommendations example_engine [1, 2, 4] = Inr [''M5'', ''M9'', ''M3'', ''M6'', ''M7'']
   \<and> final_recs example_engine [1, 2, 4] = Inr [5, 9, 3, 6, 7]
   \<and> set [5, 9, 3, 6, 7] \<inter> set [1, 2, 4] = ({} :: int set)"
proof -
  have g: "get_recommendations example_engine [1, 2, 4]
             = Inr [''M5'', ''M9'', ''M3'', ''M6'', ''M7'']"
    by (rule example_get_recommendations)
  from recommendations_exclude_seeds [OF g]
  obtain ids where "final_recs example_engine [1, 2, 4] = Inr ids"
    and "set ids \<inter> set [1, 2, 4] = {}"
    by blast
  then show ?thesis using g by (simp add: example_final_recs)
qed

text \<open>
  C2. A list returned by \<^verbatim>\<open>get_recommendations\<close> has at most 5 entries, and so has the
  list of \<^verbatim>\<open>get_top_rated_movies\<close>.
\<close>

theorem at_most_five:
  "(get_recommendations E S = Inr ts \<longrightarrow> length ts \<le> 5)
   \<and> length (get_top_rated_movies E) \<le> 5"
proof
  show "get_recommendations E S = Inr ts \<longrightarrow> length ts \<le> 5"
  proof
    assume "get_recommendations E S = Inr ts"
    then obtain r where ts: "ts = titles_of (df_movies E) (select_recs S (sorted_recs r) [])"
      by (auto simp: get_recommendations_def final_recs_def split: sum.splits)
    have "length ts \<le> length (select_recs S (sorted_recs r) [])"
      unfolding ts by (rule titles_of_length)
    also have "\<dots> \<le> 5" by (simp add: select_recs_length)
    finally show "length ts \<le> 5" .
  qed
next
  have "length (get_top_rated_movies E) \<le> length (top_5_ids E)"
    unfolding get_top_rated_movies_def by (rule titles_of_length)
  also have "\<dots> \<le> 5" by (simp add: top_5_ids_def)
  finally show "length (get_top_rated_movies E) \<le> 5" .
qed

theorem at_most_five_witness:
  "get_recommendations example_engine [1, 2, 4] = Inr [''M5'', ''M9'', ''M3'', ''M6'', ''M7'']
   \<and> length [''M5'', ''M9'', ''M3'', ''M6'', ''M7''] \<le> 5
   \<and> length (get_top_rated_movies example_engine) \<le> 5"
  using at_most_five [of example_engine "[1, 2, 4]" "[''M5'', ''M9'', ''M3'', ''M6'', ''M7'']"]
  by (simp add: example_get_recommendations)

text \<open>
  C3. A seed that is not a row label of \<^verbatim>\<open>df_piv\<close> is skipped: with it or without it
  the accumulated scores are the same and the call gives the same result. When no seed
  is a row label the call returns the empty list.
\<close>

theorem unknown_seed_skipped:
  "(u \<notin> set (df_piv_index E) \<longrightarrow>
      accumulate E r (xs @ u # ys) = accumulate E r (xs @ ys)
      \<and> get_recommendations E (xs @ u # ys) = get_recommendations E (xs @ ys))
   \<and> (set S \<inter> set (df_piv_index E) = {} \<longrightarrow> get_recommendations E S = Inr [])"
proof (intro conjI impI)
  assume "u \<notin> set (df_piv_index E)"
  then show "accumulate E r (xs @ u # ys) = accumulate E r (xs @ ys)"
    by (rule accumulate_skip_unknown)
next
  assume "u \<notin> set (df_piv_index E)"
  then show "get_recommendations E (xs @ u # ys) = get_recommendations E (xs @ ys)"
    by (simp add: get_recommendations_def final_recs_skip_unknown)
next
  assume "set S \<inter> set (df_piv_index E) = {}"
  then have "accumulate E [] S = Inr []"
    by (rule accumulate_all_unknown)
  then show "get_recommendations E S = Inr []"
    by (simp add: get_recommendations_def final_recs_def sorted_recs_def)
qed

theorem unknown_seed_skipped_witness:
  "99 \<notin> set (df_piv_index example_engine)
   \<and> get_recommendations example_engine [1, 2, 99, 4]
       = Inr [''M5'', ''M9'', ''M3'', ''M6'', ''M7'']
   \<and> set [99, 100] \<inter> set (df_piv_index example_engine) = {}
   \<and> get_recommendations example_engine [99, 100] = Inr []"
  using unknown_seed_skipped [of 99 example_engine "[]" "[1, 2]" "[4]" "[99, 100]"]
  by (simp add: example_index example_get_recommendations)

text \<open>
  C10. With no seed at all \<^verbatim>\<open>get_recommendations\<close> returns the empty list.
\<close>

theorem no_seeds: "get_recommendations E [] = Inr []"
  by (simp add: get_recommendations_def final_recs_def sorted_recs_def)

text \<open>
  C9. Each title returned by either operation is, with the id it was looked up for, a row
  of \<^verbatim>\<open>df_movies\<close>. The title lookup, on any catalogue and any list of ids, returns the
  titles of the ids that have a row, in their order, and leaves the other ids out: an id
  without a row adds nothing to the output and raises nothing.
\<close>

theorem titles_from_catalog:
  "(get_recommendations E S = Inr ts \<longrightarrow>
      (\<exists>ids. final_recs E S = Inr ids \<and> ts = titles_of (df_movies E) ids
         \<and> list_all2 (\<lambda>m t. (m, t) \<in> set (df_movies E))
              (filter (\<lambda>m. m \<in> fst ` set (df_movies E)) ids) ts))
   \<and> get_top_rated_movies E = titles_of (df_movies E) (top_5_ids E)
   \<and> list_all2 (\<lambda>m t. (m, t) \<in> set (df_movies E))
        (filter (\<lambda>m. m \<in> fst ` set (df_movies E)) (top_5_ids E)) (get_top_rated_movies E)
   \<and> list_all2 (\<lambda>m t. (m, t) \<in> set movies)
        (filter (\<lambda>m. m \<in> fst ` set movies) movie_ids) (titles_of movies movie_ids)
   \<and> (m \<notin> fst ` set movies \<longrightarrow>
        titles_of movies (xs @ m # ys) = titles_of movies (xs @ ys))"
  by (auto simp: get_recommendations_def get_top_rated_movies_def titles_of_catalog
      titles_of_drop title_series_empty split: sum.splits)

theorem titles_from_catalog_witness:
  "get_recommendations example_engine [1, 2, 4] = Inr [''M5'', ''M9'', ''M3'', ''M6'', ''M7'']
   \<and> final_recs example_engine [1, 2, 4] = Inr [5, 9, 3, 6, 7]
   \<and> list_all2 (\<lambda>m t. (m, t) \<in> set (df_movies example_engine))
        [5, 9, 3, 6, 7] [''M5'', ''M9'', ''M3'', ''M6'', ''M7'']
   \<and> 99 \<notin> fst ` set example_movies
   \<and> filter (\<lambda>m. m \<in> fst ` set example_movies) [5, 99, 9] = [5, 9]
   \<and> titles_of example_movies [5, 99, 9] = [''M5'', ''M9'']
   \<and> list_all2 (\<lambda>m t. (m, t) \<in> set example_movies) [5, 9] (titles_of example_movies [5, 99, 9])
   \<and> titles_of example_movies ([5] @ 99 # [9]) = titles_of example_movies ([5] @ [9])"
proof -
  have g: "get_recommendations example_engine [1, 2, 4]
             = Inr [''M5'', ''M9'', ''M3'', ''M6'', ''M7'']"
    by (rule example_get_recommendations)
  have f: "final_recs example_engine [1, 2, 4] = Inr [5, 9, 3, 6, 7]"
    by (rule example_final_recs)
  have k: "filter (\<lambda>m. m \<in> fst ` set (df_movies example_engine)) [5, 9, 3, 6, 7] = [5, 9, 3, 6, 7]"
    by (simp add: example_fields example_movies_def)
  have u: "99 \<notin> fst ` set example_movies"
    by (simp add: example_movies_def)
  have d: "filter (\<lambda>m. m \<in> fst ` set example_movies) [5, 99, 9] = [5, 9]"
    by (simp add: example_movies_def)
  note t = titles_from_catalog [of example_engine "[1, 2, 4]"
      "[''M5'', ''M9'', ''M3'', ''M6'', ''M7'']" example_movies "[5, 99, 9]" 99 "[5]" "[9]"]
  from t g obtain ids where i: "final_recs example_engine [1, 2, 4] = Inr ids"
    and l: "list_all2 (\<lambda>m t. (m, t) \<in> set (df_movies example_engine))
              (filter (\<lambda>m. m \<in> fst ` set (df_movies example_engine)) ids)
              [''M5'', ''M9'', ''M3'', ''M6'', ''M7'']"
    by blast
  from i f have ids: "ids = [5, 9, 3, 6, 7]" by simp
  from l have 1: "list_all2 (\<lambda>m t. (m, t) \<in> set (df_movies example_engine))
        [5, 9, 3, 6, 7] [''M5'', ''M9'', ''M3'', ''M6'', ''M7'']"
    unfolding ids k .
  from t have "list_all2 (\<lambda>m t. (m, t) \<in> set example_movies)
        (filter (\<lambda>m. m \<in> fst ` set example_movies) [5, 99, 9])
        (titles_of example_movies [5, 99, 9])"
    by blast
  then have 2: "list_all2 (\<lambda>m t. (m, t) \<in> set example_movies) [5, 9]
        (titles_of example_movies [5, 99, 9])"
    unfolding d .
  from t u have 3: "titles_of example_movies ([5] @ 99 # [9]) = titles_of example_movies ([5] @ [9])"
    by blast
  from g f 1 u d example_titles_of_unknown 2 3 show ?thesis by blast
qed

text \<open>
  C5. Every id that \<^verbatim>\<open>get_top_rated_movies\<close> selects has a rating count, the number of
  its rows in \<^verbatim>\<open>df_merged\<close>, at least the median of the rating counts of all the movies
  of \<^verbatim>\<open>df_merged\<close>.
\<close>

theorem top_rated_support:
  "\<forall>m\<in>set (top_5_ids E).
     \<exists>c med. (m, c) \<in> set (df_count_rating E)
       \<and> c = length (group_ratings E m)
       \<and> median (map snd (df_count_rating E)) = Some med \<and> med \<le> real c"
proof
  fix m assume "m \<in> set (top_5_ids E)"
  then have "m \<in> set (popular_movies E)"
    using top_5_ids_subset by blast
  then obtain c med where c: "(m, c) \<in> set (df_count_rating E)"
    and med: "median (map snd (df_count_rating E)) = Some med" "med \<le> real c"
    using popular_movies_support by blast
  from c have "c = length (group_ratings E m)"
    by (auto simp: df_count_rating_def)
  with c med show "\<exists>c med. (m, c) \<in> set (df_count_rating E)
       \<and> c = length (group_ratings E m)
       \<and> median (map snd (df_count_rating E)) = Some med \<and> med \<le> real c"
    by blast
qed

theorem top_rated_support_witness:
  "2 \<in> set (top_5_ids small_engine)
   \<and> (2, 2) \<in> set (df_count_rating small_engine)
   \<and> median (map snd (df_count_rating small_engine)) = Some 2
   \<and> (\<exists>c med. (2, c) \<in> set (df_count_rating small_engine)
        \<and> c = length (group_ratings small_engine 2)
        \<and> median (map snd (df_count_rating small_engine)) = Some med \<and> med \<le> real c)"
proof -
  have m: "2 \<in> set (top_5_ids small_engine)"
    by (simp add: small_top_5_ids)
  have c: "(2, 2) \<in> set (df_count_rating small_engine)"
    by (simp add: small_counts)
  from top_rated_support [of small_engine] m
  have "\<exists>c med. (2, c) \<in> set (df_count_rating small_engine)
        \<and> c = length (group_ratings small_engine 2)
        \<and> median (map snd (df_count_rating small_engine)) = Some med \<and> med \<le> real c"
    by blast
  with m c small_median show ?thesis by blast
qed

text \<open>
  C6, as stated, fails twice. In \<open>tied_engine\<close> the means are tied in pairs and the sort
  leaves equal means in descending id order: the list is 4, 3, 2, 1, not ascending ids
  among equal means. In \<open>small_engine\<close> the means are pairwise distinct, the highest is
  that of movie 1, and movie 1 is not returned at all, its single rating being below the
  median count of 2.
\<close>

theorem top_rated_order_counterexample:
  "df_mean_rating tied_engine = [(1, 3), (2, 3), (3, 5), (4, 5)]
   \<and> top_5_ids tied_engine = [4, 3, 2, 1]
   \<and> get_top_rated_movies tied_engine = [''M4'', ''M3'', ''M2'', ''M1'']
   \<and> \<not> sorted_wrt by_score_then_id
         (sort_values_desc (tie_rank tied_engine) (retained_mean_rating tied_engine))
   \<and> df_mean_rating small_engine = [(1, 5), (2, 7/2), (3, 3/2)]
   \<and> distinct (map snd (df_mean_rating small_engine))
   \<and> df_count_rating small_engine = [(1, 1), (2, 2), (3, 2)]
   \<and> top_5_ids small_engine = [2, 3]
   \<and> get_top_rated_movies small_engine = [''M2'', ''M3'']
   \<and> hd (top_5_ids small_engine) \<noteq> 1"
  unfolding tied_sorted
  by (simp add: tied_means tied_top_5_ids tied_top_rated small_means small_counts
      small_top_5_ids small_top_rated by_score_then_id_def)

text \<open>
  C6, amended. The retained rows are put in the order of mean rating descending, the order
  among rows of equal mean being the library's, and the titles of the first 5 are
  returned; a retained movie whose mean is strictly the highest among the retained ones
  is returned first.
\<close>

theorem top_rated_order:
  "sorted_wrt (\<lambda>a b. snd b \<le> snd a)
     (sort_values_desc (tie_rank E) (retained_mean_rating E))
   \<and> mset (sort_values_desc (tie_rank E) (retained_mean_rating E))
       = mset (retained_mean_rating E)
   \<and> get_top_rated_movies E
       = titles_of (df_movies E)
           (map fst (take 5 (sort_values_desc (tie_rank E) (retained_mean_rating E))))
   \<and> ((m, r) \<in> set (retained_mean_rating E)
        \<and> (\<forall>row\<in>set (retained_mean_rating E). row = (m, r) \<or> snd row < r)
      \<longrightarrow> (\<exists>rest. top_5_ids E = m # rest)
          \<and> (\<exists>t ts. get_top_rated_movies E = t # ts \<and> (m, t) \<in> set (df_movies E)))"
proof (intro conjI impI)
  show "sorted_wrt (\<lambda>a b. snd b \<le> snd a)
          (sort_values_desc (tie_rank E) (retained_mean_rating E))"
    by (rule sort_values_desc_sorted)
  show "mset (sort_values_desc (tie_rank E) (retained_mean_rating E))
          = mset (retained_mean_rating E)"
    by (rule mset_sort_values_desc)
  show "get_top_rated_movies E
       = titles_of (df_movies E)
           (map fst (take 5 (sort_values_desc (tie_rank E) (retained_mean_rating E))))"
    by (simp add: get_top_rated_movies_def top_5_ids_def)
next
  assume a: "(m, r) \<in> set (retained_mean_rating E)
        \<and> (\<forall>row\<in>set (retained_mean_rating E). row = (m, r) \<or> snd row < r)"
  then have "\<exists>rest. sort_values_desc (tie_rank E) (retained_mean_rating E) = (m, r) # rest"
    by (intro head_is_max sort_values_desc_sorted) (simp_all add: set_sort_values_desc)
  then obtain rest
    where "sort_values_desc (tie_rank E) (retained_mean_rating E) = (m, r) # rest" ..
  then have top: "top_5_ids E = m # map fst (take 4 rest)"
    by (simp add: top_5_ids_def)
  then show "\<exists>rest. top_5_ids E = m # rest" ..
  from top have "m \<in> set (df_piv_index E)"
    using top_5_ids_subset [of E] popular_movies_subset [of E] by auto
  then have "title_series (df_movies E) m \<noteq> []"
    by (simp add: title_series_empty df_piv_index_catalog)
  then obtain t ts' where t: "title_series (df_movies E) m = t # ts'"
    by (cases "title_series (df_movies E) m") auto
  then have "(m, t) \<in> set (df_movies E)"
    by (rule title_series_member)
  moreover from t top
  have "get_top_rated_movies E = t # titles_of (df_movies E) (map fst (take 4 rest))"
    by (simp add: get_top_rated_movies_def)
  ultimately show "\<exists>t ts. get_top_rated_movies E = t # ts \<and> (m, t) \<in> set (df_movies E)"
    by blast
qed

theorem top_rated_order_witness:
  "(2, 7/2) \<in> set (retained_mean_rating small_engine)
   \<and> retained_mean_rating small_engine = [(2, 7/2), (3, 3/2)]
   \<and> (\<exists>rest. top_5_ids small_engine = 2 # rest)
   \<and> (\<exists>t ts. get_top_rated_movies small_engine = t # ts \<and> (2, t) \<in> set (df_movies small_engine))"
proof -
  have a: "(2, 7/2) \<in> set (retained_mean_rating small_engine)
        \<and> (\<forall>row\<in>set (retained_mean_rating small_engine). row = (2, 7/2) \<or> snd row < 7/2)"
    by (simp add: small_retained)
  from top_rated_order [of small_engine 2 "7/2"] a
  have "(\<exists>rest. top_5_ids small_engine = 2 # rest)
     \<and> (\<exists>t ts. get_top_rated_movies small_engine = t # ts \<and> (2, t) \<in> set (df_movies small_engine))"
    by blast
  with a small_retained show ?thesis by blast
qed



text \<open>
  C8. Scores add up over the seeds: when the seeds \<open>S'\<close> are the seeds \<open>S\<close> and one more
  seed \<open>B\<close>, in any order, the score of a movie \<open>X\<close> is its score from \<open>S\<close> plus what the
  neighbour list of \<open>B\<close> gives for \<open>X\<close>; when those similarities are positive, the score
  from \<open>S'\<close> is at least the score from \<open>S\<close>.
\<close>

theorem aggregation_additive_monotone:
  assumes "accumulate E [] S = Inr r1" and "accumulate E [] S' = Inr r2"
    and "mset S' = add_mset B (mset S)"
    and "neighbours E B = Inr nb"
    and "\<forall>p\<in>set (drop 1 nb). fst p = X \<longrightarrow> 0 < snd p"
  shows "dict_get r2 X 0
           = dict_get r1 X 0 + sum_list (map snd (filter (\<lambda>p. fst p = X) (drop 1 nb)))
         \<and> dict_get r1 X 0 \<le> dict_get r2 X 0"
proof -
  let ?c = "sum_list (map snd (filter (\<lambda>p. fst p = X) (drop 1 nb)))"
  have c: "contribution E B X = ?c"
    using assms(4) by (simp add: contribution_def)
  have r1: "dict_get r1 X 0 = sum_list (map (\<lambda>s. contribution E s X) S)"
    using accumulate_score [OF assms(1), of X] by (simp add: dict_get_def)
  have r2: "dict_get r2 X 0 = sum_list (map (\<lambda>s. contribution E s X) S')"
    using accumulate_score [OF assms(2), of X] by (simp add: dict_get_def)
  have eq: "dict_get r2 X 0 = dict_get r1 X 0 + ?c"
    unfolding r1 r2 using sum_list_contributions [OF assms(3), of "\<lambda>s. contribution E s X"] c
    by simp
  have "0 \<le> ?c"
    using assms(5) by (intro sum_list_nonneg) (auto simp: less_imp_le)
  with eq show ?thesis by simp
qed

theorem aggregation_additive_monotone_witness:
  "accumulate example_engine [] [6] =
     Inr [(7, 1), (8, 1), (10, 1), (11, 1), (12, 1), (1, 0), (2, 0), (3, 0), (4, 0), (5, 0)]
   \<and> accumulate example_engine [] [6, 8] =
     Inr [(7, 2), (8, 2), (10, 2), (11, 2), (12, 2), (1, 0), (2, 0), (3, 0), (4, 0), (5, 0)]
   \<and> dict_get [(7, 1), (8, 1), (10, 1), (11, 1), (12, 1), (1, 0), (2, 0), (3, 0), (4, 0), (5, 0)] 7 0
       \<le> dict_get [(7, 2), (8, 2), (10, 2), (11, 2), (12, 2), (1, 0), (2, 0), (3, 0), (4, 0), (5, 0)] 7 0
   \<and> dict_get [(7, 2), (8, 2), (10, 2), (11, 2), (12, 2), (1, 0), (2, 0), (3, 0), (4, 0), (5, 0)] 7 0 = 2"
proof -
  have m: "mset [6, 8] = add_mset (8::int) (mset [6])" by simp
  have p: "\<forall>p\<in>set (drop 1 [(6, 1), (7, 1), (8, 1), (10, 1), (11, 1), (12, 1), (1, 0), (2, 0),
              (3, 0), (4, 0), (5, 0 :: real)]). fst p = (7::int) \<longrightarrow> 0 < snd p"
    by simp
  from aggregation_additive_monotone
    [OF example_accumulate_6 example_accumulate_6_8 m example_neighbours_8 p]
  show ?thesis
    unfolding example_accumulate_6 example_accumulate_6_8 by (simp add: dict_get_def)
qed

end
